theory Spec2Isabelle
  imports Main "HOL-Library.AList"
begin

section \<open>Python values and exceptions\<close>

text \<open>
  The service in \<^verbatim>\<open>backend/flaskr/__init__.py\<close> receives parsed JSON bodies and
  answers with JSON objects. A parsed body is a Python value: \<^verbatim>\<open>None\<close>, a boolean,
  an integer, a string, a list or a dictionary. Floating point numbers are left out.
  Characters are code points below 256. A dictionary is the list of its items, keys
  distinct, in insertion order.
\<close>

datatype json =
    JNull
  | JBool bool
  | JInt int
  | JStr string
  | JArr "json list"
  | JObj "(string \<times> json) list"

text \<open>
  Every \<^verbatim>\<open>raise\<close> of the source is a value. \<open>HTTPException code\<close> is what
  \<^verbatim>\<open>abort(code)\<close> raises; in Python it is caught by \<^verbatim>\<open>except BaseException\<close>
  like any other exception.
\<close>

datatype py_exception =
    AttributeError
  | TypeError
  | KeyError
  | ArgumentError
  | MultipleResultsFound
  | StoreError
  | HTTPException nat

definition abort :: "nat \<Rightarrow> py_exception + 'a" where
  "abort code = Inl (HTTPException code)"

fun and_then :: "('e + 'a) \<Rightarrow> ('a \<Rightarrow> 'e + 'b) \<Rightarrow> 'e + 'b" where
  "and_then (Inl e) f = Inl e"
| "and_then (Inr x) f = f x"

text \<open>\<^verbatim>\<open>body.get(key, None)\<close>: only a dictionary has the method.\<close>

fun dict_get :: "json \<Rightarrow> string \<Rightarrow> py_exception + json" where
  "dict_get (JObj kvs) k = Inr (case map_of kvs k of None \<Rightarrow> JNull | Some v \<Rightarrow> v)"
| "dict_get JNull k = Inl AttributeError"
| "dict_get (JBool b) k = Inl AttributeError"
| "dict_get (JInt i) k = Inl AttributeError"
| "dict_get (JStr s) k = Inl AttributeError"
| "dict_get (JArr xs) k = Inl AttributeError"

text \<open>\<^verbatim>\<open>category['id']\<close>: a subscript with a string key.\<close>

fun getitem :: "json \<Rightarrow> string \<Rightarrow> py_exception + json" where
  "getitem (JObj kvs) k = (case map_of kvs k of None \<Rightarrow> Inl KeyError | Some v \<Rightarrow> Inr v)"
| "getitem JNull k = Inl TypeError"
| "getitem (JBool b) k = Inl TypeError"
| "getitem (JInt i) k = Inl TypeError"
| "getitem (JStr s) k = Inl TypeError"
| "getitem (JArr xs) k = Inl TypeError"

fun py_len :: "json \<Rightarrow> py_exception + nat" where
  "py_len (JStr s) = Inr (length s)"
| "py_len (JArr xs) = Inr (length xs)"
| "py_len (JObj kvs) = Inr (length kvs)"
| "py_len JNull = Inl TypeError"
| "py_len (JBool b) = Inl TypeError"
| "py_len (JInt i) = Inl TypeError"

text \<open>\<^verbatim>\<open>value == n\<close> for an integer \<open>n\<close>; a Python boolean is an integer.\<close>

fun py_eq_int :: "json \<Rightarrow> int \<Rightarrow> bool" where
  "py_eq_int (JInt m) n = (m = n)"
| "py_eq_int (JBool b) n = ((if b then 1 else 0) = n)"
| "py_eq_int JNull n = False"
| "py_eq_int (JStr s) n = False"
| "py_eq_int (JArr xs) n = False"
| "py_eq_int (JObj kvs) n = False"

text \<open>The truth value of an object, as \<^verbatim>\<open>if searchTerm:\<close> tests it.\<close>

fun truthy :: "json \<Rightarrow> bool" where
  "truthy JNull = False"
| "truthy (JBool b) = b"
| "truthy (JInt i) = (i \<noteq> 0)"
| "truthy (JStr s) = (s \<noteq> [])"
| "truthy (JArr xs) = (xs \<noteq> [])"
| "truthy (JObj kvs) = (kvs \<noteq> [])"

subsection \<open>\<^verbatim>\<open>str\<close> and \<^verbatim>\<open>repr\<close>\<close>

definition digit_char :: "nat \<Rightarrow> char" where
  "digit_char n = ''0123456789abcdef'' ! (n mod 16)"

fun str_nat :: "nat \<Rightarrow> string" where
  "str_nat n = (if n < 10 then [digit_char n] else str_nat (n div 10) @ [digit_char (n mod 10)])"

declare str_nat.simps [simp del]

definition str_int :: "int \<Rightarrow> string" where
  "str_int i = (if i < 0 then CHR ''-'' # str_nat (nat (- i)) else str_nat (nat i))"

definition printable :: "char \<Rightarrow> bool" where
  "printable c = (let n = (of_char c :: nat) in \<not> (n < 32 \<or> (127 \<le> n \<and> n \<le> 160) \<or> n = 173))"

definition repr_char :: "char \<Rightarrow> char \<Rightarrow> string" where
  "repr_char q c =
     (if c = q \<or> c = CHR 0x5C then [CHR 0x5C, c]
      else if c = CHR 0x09 then [CHR 0x5C, CHR ''t'']
      else if c = CHR 0x0A then [CHR 0x5C, CHR ''n'']
      else if c = CHR 0x0D then [CHR 0x5C, CHR ''r'']
      else if \<not> printable c
        then [CHR 0x5C, CHR ''x'', digit_char (of_char c div 16), digit_char (of_char c mod 16)]
      else [c])"

definition repr_str :: "string \<Rightarrow> string" where
  "repr_str s =
     (let q = (if CHR 0x27 \<in> set s \<and> CHR 0x22 \<notin> set s then CHR 0x22 else CHR 0x27)
      in q # concat (map (repr_char q) s) @ [q])"

fun join :: "string \<Rightarrow> string list \<Rightarrow> string" where
  "join sep [] = []"
| "join sep [x] = x"
| "join sep (x # y # ys) = x @ sep @ join sep (y # ys)"

fun py_repr :: "json \<Rightarrow> string" where
  "py_repr JNull = ''None''"
| "py_repr (JBool b) = (if b then ''True'' else ''False'')"
| "py_repr (JInt i) = str_int i"
| "py_repr (JStr s) = repr_str s"
| "py_repr (JArr xs) = ''['' @ join '', '' (map py_repr xs) @ '']''"
| "py_repr (JObj kvs) =
     ''{'' @ join '', '' (map (\<lambda>kv. repr_str (fst kv) @ '': '' @ py_repr (snd kv)) kvs) @ ''}''"

fun py_str :: "json \<Rightarrow> string" where
  "py_str (JStr s) = s"
| "py_str JNull = py_repr JNull"
| "py_str (JBool b) = py_repr (JBool b)"
| "py_str (JInt i) = py_repr (JInt i)"
| "py_str (JArr xs) = py_repr (JArr xs)"
| "py_str (JObj kvs) = py_repr (JObj kvs)"

text \<open>
  A slice \<^verbatim>\<open>xs[start:stop]\<close> with step 1: a negative bound counts from the end, and
  both bounds are clipped to the list.
\<close>

definition py_slice :: "int \<Rightarrow> int \<Rightarrow> 'a list \<Rightarrow> 'a list" where
  "py_slice start stop xs =
     (let n = int (length xs);
          lo = (if start < 0 then max (start + n) 0 else min start n);
          hi = (if stop < 0 then max (stop + n) 0 else min stop n)
      in if lo < hi then take (nat (hi - lo)) (drop (nat lo) xs) else [])"

section \<open>The question store\<close>

text \<open>
  \<^verbatim>\<open>models.py\<close> (\<^verbatim>\<open>setup_db\<close>, \<^verbatim>\<open>Question\<close>, \<^verbatim>\<open>Category\<close>) is not among the sources.
  The rows follow section 3 of the specification and the sample of a formatted
  question in \<^verbatim>\<open>delete_question\<close>, where the category and the difficulty are
  numbers and the other fields are text. A column holds \<open>None\<close> for SQL \<^verbatim>\<open>NULL\<close>.
\<close>

record Question =
  question_id :: int
  question :: "string option"
  answer :: "string option"
  category :: "int option"
  difficulty :: "int option"

record Category =
  category_id :: int
  category_type :: string

text \<open>
  The tables in storage order, and the identifier the store gives to the next
  question it inserts.
\<close>

record store =
  questions :: "Question list"
  categories :: "Category list"
  next_id :: int

definition text_json :: "string option \<Rightarrow> json" where
  "text_json t = (case t of None \<Rightarrow> JNull | Some s \<Rightarrow> JStr s)"

definition int_json :: "int option \<Rightarrow> json" where
  "int_json t = (case t of None \<Rightarrow> JNull | Some i \<Rightarrow> JInt i)"

text \<open>
  Modelled from the spec: \<^verbatim>\<open>Question.format()\<close> of the missing \<^verbatim>\<open>models.py\<close>. The
  dictionary of the five fields of section 3, under the keys of the sample in
  \<^verbatim>\<open>delete_question\<close>.
\<close>

definition format_question :: "Question \<Rightarrow> json" where
  "format_question q =
     JObj [(''answer'', text_json (answer q)),
           (''category'', int_json (category q)),
           (''difficulty'', int_json (difficulty q)),
           (''id'', JInt (question_id q)),
           (''question'', text_json (question q))]"

text \<open>\<^verbatim>\<open>.order_by(Question.id)\<close> and \<^verbatim>\<open>.order_by(Category.id)\<close>.\<close>

definition order_by_question_id :: "Question list \<Rightarrow> Question list" where
  "order_by_question_id qs = sort_key question_id qs"

definition order_by_category_id :: "Category list \<Rightarrow> Category list" where
  "order_by_category_id cs = sort_key category_id cs"

text \<open>\<^verbatim>\<open>.one_or_none()\<close>: the only row, \<^verbatim>\<open>None\<close> for no row, an exception for several.\<close>

fun one_or_none :: "'a list \<Rightarrow> py_exception + 'a option" where
  "one_or_none [] = Inr None"
| "one_or_none [x] = Inr (Some x)"
| "one_or_none (x # y # ys) = Inl MultipleResultsFound"

section \<open>Requests\<close>

text \<open>
  What a handler reads of the request: \<open>page\<close> is the query parameter \<^verbatim>\<open>page\<close>
  converted by \<^verbatim>\<open>int\<close> (\<open>None\<close> when it is absent or the conversion fails);
  \<open>is_json\<close> tells whether the content type of the request announces JSON; \<open>data\<close>
  is the body parsed as JSON, \<open>None\<close> when the body is no JSON text (an empty body
  is none). A parsed \<^verbatim>\<open>null\<close> is \<open>Some JNull\<close>: Python's \<^verbatim>\<open>None\<close>.
\<close>

record request =
  page :: "int option"
  is_json :: bool
  data :: "json option"

text \<open>
  \<^verbatim>\<open>request.get_json()\<close>, called without \<^verbatim>\<open>silent\<close> as the handlers call it: the
  framework aborts with 415 when the content type is not JSON and with 400 when the
  body does not parse; otherwise the parsed value is returned.
\<close>

definition get_json :: "request \<Rightarrow> py_exception + json" where
  "get_json req =
     (if is_json req
      then (case data req of None \<Rightarrow> abort 400 | Some v \<Rightarrow> Inr v)
      else abort 415)"

section \<open>Pagination\<close>

definition QUESTIONS_PER_PAGE :: int where
  "QUESTIONS_PER_PAGE = 10"

definition paginate_questions :: "request \<Rightarrow> Question list \<Rightarrow> json list" where
  "paginate_questions req selection =
     (let page_no = (case page req of None \<Rightarrow> 1 | Some p \<Rightarrow> p);
          start = (page_no - 1) * QUESTIONS_PER_PAGE;
          stop = start + QUESTIONS_PER_PAGE;
          formatted = map format_question selection
      in py_slice start stop formatted)"

section \<open>Queries\<close>

text \<open>
  \<^verbatim>\<open>Question.question.ilike(pattern)\<close>: SQL \<^verbatim>\<open>LIKE\<close> without regard to case. In the
  pattern \<^verbatim>\<open>%\<close> stands for any run of characters and \<^verbatim>\<open>_\<close> for any one character.
  A \<^verbatim>\<open>NULL\<close> text matches nothing. Letter case is folded on ASCII letters; escape
  characters differ between engines and are left out.
\<close>

definition lower_char :: "char \<Rightarrow> char" where
  "lower_char c =
     (let n = (of_char c :: nat) in if 65 \<le> n \<and> n \<le> 90 then char_of (n + 32) else c)"

fun like :: "string \<Rightarrow> string \<Rightarrow> bool" where
  "like [] [] = True"
| "like [] (c # cs) = False"
| "like (p # ps) [] = (p = CHR ''%'' \<and> like ps [])"
| "like (p # ps) (c # cs) =
     (if p = CHR ''%'' then like ps (c # cs) \<or> like (p # ps) cs
      else (p = CHR ''_'' \<or> p = c) \<and> like ps cs)"

definition ilike :: "string option \<Rightarrow> string \<Rightarrow> bool" where
  "ilike column pattern =
     (case column of
        None \<Rightarrow> False
      | Some t \<Rightarrow> like (map lower_char pattern) (map lower_char t))"

text \<open>
  The membership operators of a column. The attribute is looked up by name when the
  handler builds its query: \<^verbatim>\<open>in_\<close>, \<^verbatim>\<open>not_in\<close> and its older spelling \<^verbatim>\<open>notin_\<close> are
  operators, and the lookup of any other name among them raises \<^verbatim>\<open>AttributeError\<close>.
\<close>

datatype column_operator = In_Op | Not_In_Op

definition column_getattr :: "string \<Rightarrow> py_exception + column_operator" where
  "column_getattr name =
     (if name = ''in_'' then Inr In_Op
      else if name = ''not_in'' \<or> name = ''notin_'' then Inr Not_In_Op
      else Inl AttributeError)"

text \<open>
  A value compared with an integer column: the store coerces it to the type of the
  column. An integer stays as it is, \<^verbatim>\<open>None\<close> is \<^verbatim>\<open>NULL\<close>, and a text has to be an
  integer literal, an optional minus sign before decimal digits. The store rejects
  any other text, a boolean, a list and a dictionary: the query raises.
\<close>

definition digit_value :: "char \<Rightarrow> nat option" where
  "digit_value c =
     (let n = (of_char c :: nat) in if 48 \<le> n \<and> n \<le> 57 then Some (n - 48) else None)"

fun digits_value :: "nat \<Rightarrow> string \<Rightarrow> nat option" where
  "digits_value acc [] = Some acc"
| "digits_value acc (c # cs) =
     (case digit_value c of None \<Rightarrow> None | Some d \<Rightarrow> digits_value (10 * acc + d) cs)"

definition int_of_text :: "string \<Rightarrow> int option" where
  "int_of_text s =
     (case s of
        [] \<Rightarrow> None
      | c # cs \<Rightarrow>
          if c = CHR ''-''
          then (if cs = [] then None else map_option (\<lambda>n. - int n) (digits_value 0 cs))
          else map_option int (digits_value 0 s))"

fun integer_param :: "json \<Rightarrow> py_exception + int option" where
  "integer_param (JInt i) = Inr (Some i)"
| "integer_param JNull = Inr None"
| "integer_param (JStr s) =
     (case int_of_text s of None \<Rightarrow> Inl StoreError | Some i \<Rightarrow> Inr (Some i))"
| "integer_param (JBool b) = Inl StoreError"
| "integer_param (JArr xs) = Inl StoreError"
| "integer_param (JObj kvs) = Inl StoreError"

fun integer_params :: "json list \<Rightarrow> py_exception + int option list" where
  "integer_params [] = Inr []"
| "integer_params (v # vs) =
     and_then (integer_param v) (\<lambda>p.
     and_then (integer_params vs) (\<lambda>ps. Inr (p # ps)))"

text \<open>The comparison \<^verbatim>\<open>column = value\<close> of SQL: \<^verbatim>\<open>NULL\<close> is equal to nothing.\<close>

definition sql_eq :: "int option \<Rightarrow> int option \<Rightarrow> bool" where
  "sql_eq column p =
     (case column of
        None \<Rightarrow> False
      | Some a \<Rightarrow> (case p of None \<Rightarrow> False | Some b \<Rightarrow> a = b))"

text \<open>
  \<^verbatim>\<open>Question.query.filter(Question.category == str(key)).all()\<close>: the rows whose
  category is equal to the text, coerced to the column.
\<close>

definition filter_category :: "string \<Rightarrow> Question list \<Rightarrow> py_exception + Question list" where
  "filter_category key rows =
     and_then (integer_param (JStr key)) (\<lambda>p. Inr (filter (\<lambda>q. sql_eq (category q) p) rows))"

text \<open>
  The operator applied to its argument, as a test on the identifier of a row. The
  argument has to be a list, or building the expression raises. Its members are
  coerced to the column when the query runs. \<^verbatim>\<open>id IN (...)\<close> holds of the
  identifiers among the members; \<^verbatim>\<open>id NOT IN (...)\<close> holds of the identifiers that
  are not among them, and of no identifier at all when a member is \<^verbatim>\<open>NULL\<close>.
\<close>

fun membership :: "column_operator \<Rightarrow> json \<Rightarrow> py_exception + (int \<Rightarrow> bool)" where
  "membership In_Op (JArr vs) =
     and_then (integer_params vs) (\<lambda>ps. Inr (\<lambda>i. Some i \<in> set ps))"
| "membership Not_In_Op (JArr vs) =
     and_then (integer_params vs) (\<lambda>ps. Inr (\<lambda>i. None \<notin> set ps \<and> Some i \<notin> set ps))"
| "membership opr JNull = Inl ArgumentError"
| "membership opr (JBool b) = Inl ArgumentError"
| "membership opr (JInt i) = Inl ArgumentError"
| "membership opr (JStr s) = Inl ArgumentError"
| "membership opr (JObj kvs) = Inl ArgumentError"

text \<open>
  \<^verbatim>\<open>random.choice(seq)\<close> returns \<^verbatim>\<open>seq[i]\<close> for an index \<open>i\<close> below the length that
  the generator draws; \<open>r\<close> is the generator's number.
\<close>

definition random_choice :: "nat \<Rightarrow> 'a list \<Rightarrow> 'a" where
  "random_choice r xs = xs ! (r mod length xs)"

section \<open>Writes\<close>

text \<open>
  Modelled from the spec: \<^verbatim>\<open>Question.delete()\<close> of the missing \<^verbatim>\<open>models.py\<close>, section 6:
  \<^verbatim>\<open>deleteQuestion(id) -> success/failure\<close>. Whether the store's transaction goes
  through is the input \<open>commits\<close>; a failed transaction raises and leaves the store
  as it was.
\<close>

definition Question_delete :: "bool \<Rightarrow> Question \<Rightarrow> store \<Rightarrow> py_exception + store" where
  "Question_delete commits q s =
     (if commits
      then Inr (s\<lparr>questions := filter (\<lambda>r. question_id r \<noteq> question_id q) (questions s)\<rparr>)
      else Inl StoreError)"

text \<open>
  Modelled from the spec: the constructor \<^verbatim>\<open>Question(question, answer, difficulty,
  category)\<close> and \<^verbatim>\<open>Question.insert()\<close> of the missing \<^verbatim>\<open>models.py\<close>. Section 4.4: there
  is no validation "beyond what the store itself enforces on write", the record is
  "assigned a fresh identifier"; section 6: \<^verbatim>\<open>insertQuestion(fields) -> Question\<close>
  "fails on store-level constraint violation". What the store enforces is the input
  \<open>admit\<close>: the row it writes for the four values, or \<open>None\<close> when it refuses them.
\<close>

type_synonym admission = "json \<Rightarrow> json \<Rightarrow> json \<Rightarrow> json \<Rightarrow> Question option"

definition Question_insert ::
  "admission \<Rightarrow> json \<Rightarrow> json \<Rightarrow> json \<Rightarrow> json \<Rightarrow> store \<Rightarrow> py_exception + (Question \<times> store)" where
  "Question_insert admit new_question new_answer new_difficulty new_category s =
     (case admit new_question new_answer new_difficulty new_category of
        None \<Rightarrow> Inl StoreError
      | Some row \<Rightarrow>
          (let q = row\<lparr>question_id := next_id s\<rparr>
           in Inr (q, s\<lparr>questions := questions s @ [q], next_id := next_id s + 1\<rparr>)))"

text \<open>
  One store policy, for running the model: every column is nullable, a text column
  takes a string or an integer, an integer column takes what \<open>integer_param\<close> accepts.
\<close>

fun text_column :: "json \<Rightarrow> string option option" where
  "text_column JNull = Some None"
| "text_column (JStr s) = Some (Some s)"
| "text_column (JInt i) = Some (Some (str_int i))"
| "text_column (JBool b) = None"
| "text_column (JArr xs) = None"
| "text_column (JObj kvs) = None"

definition integer_column :: "json \<Rightarrow> int option option" where
  "integer_column v = (case integer_param v of Inl e \<Rightarrow> None | Inr p \<Rightarrow> Some p)"

definition nullable_columns :: admission where
  "nullable_columns new_question new_answer new_difficulty new_category =
     (case (text_column new_question, text_column new_answer,
            integer_column new_difficulty, integer_column new_category) of
        (Some q, Some a, Some d, Some c) \<Rightarrow>
          Some \<lparr>question_id = 0, question = q, answer = a, category = c, difficulty = d\<rparr>
      | _ \<Rightarrow> None)"

section \<open>The handlers\<close>

text \<open>\<^verbatim>\<open>try: body except BaseException: handler\<close>.\<close>

fun try_except :: "(py_exception + 'a) \<Rightarrow> (py_exception + 'a) \<Rightarrow> py_exception + 'a" where
  "try_except (Inr v) handler = Inr v"
| "try_except (Inl e) handler = handler"

text \<open>The loop \<^verbatim>\<open>categories[category.id] = category.type\<close>, and the dictionary as JSON.\<close>

definition category_dict :: "Category list \<Rightarrow> (int \<times> string) list" where
  "category_dict cs = foldl (\<lambda>d c. AList.update (category_id c) (category_type c) d) [] cs"

definition jsonify_categories :: "(int \<times> string) list \<Rightarrow> json" where
  "jsonify_categories d = JObj (map (\<lambda>kv. (str_int (fst kv), JStr (snd kv))) d)"

definition get_questions :: "request \<Rightarrow> store \<Rightarrow> py_exception + json" where
  "get_questions req s =
     (let selection = order_by_question_id (questions s);
          current_questions = paginate_questions req selection;
          cats = category_dict (order_by_category_id (categories s))
      in if length current_questions = 0 then abort 404
         else Inr (JObj [(''success'', JBool True),
                         (''questions'', JArr current_questions),
                         (''total_questions'', JInt (int (length (questions s)))),
                         (''categories'', jsonify_categories cats),
                         (''current_category'', JNull)]))"

text \<open>
  \<^verbatim>\<open>DELETE /questions/<int:question_id>\<close>. The whole body is inside the
  \<^verbatim>\<open>try\<close>, \<^verbatim>\<open>abort(404)\<close> included. The result is the handler's outcome and the
  store after it.
\<close>

definition delete_question ::
  "bool \<Rightarrow> request \<Rightarrow> int \<Rightarrow> store \<Rightarrow> (py_exception + json) \<times> store" where
  "delete_question commits req qid s =
     (case
        and_then (one_or_none (filter (\<lambda>q. question_id q = qid) (questions s))) (\<lambda>found.
        and_then (case found of None \<Rightarrow> abort 404 | Some q \<Rightarrow> Inr q) (\<lambda>q.
        and_then (Question_delete commits q s) (\<lambda>s'.
          (let selection = order_by_question_id (questions s');
               current_questions = paginate_questions req selection
           in Inr (JObj [(''success'', JBool True),
                         (''deleted'', JInt qid),
                         (''questions'', JArr current_questions),
                         (''total_questions'', JInt (int (length (questions s'))))],
                   s')))))
      of
        Inl e \<Rightarrow> (abort 422, s)
      | Inr (rv, s') \<Rightarrow> (Inr rv, s'))"

text \<open>
  \<^verbatim>\<open>POST /questions\<close>. The body and its five fields are read before the \<^verbatim>\<open>try\<close>; the
  branch on \<^verbatim>\<open>searchTerm\<close> and both branches are inside it.
\<close>

definition create_and_search_question ::
  "admission \<Rightarrow> request \<Rightarrow> store \<Rightarrow> (py_exception + json) \<times> store" where
  "create_and_search_question admit req s =
     (case
        and_then (get_json req) (\<lambda>body.
        and_then (dict_get body ''question'') (\<lambda>new_question.
        and_then (dict_get body ''answer'') (\<lambda>new_answer.
        and_then (dict_get body ''difficulty'') (\<lambda>new_difficulty.
        and_then (dict_get body ''category'') (\<lambda>new_category.
        and_then (dict_get body ''searchTerm'') (\<lambda>searchTerm.
          Inr (new_question, new_answer, new_difficulty, new_category, searchTerm)))))))
      of
        Inl e \<Rightarrow> (Inl e, s)
      | Inr (new_question, new_answer, new_difficulty, new_category, searchTerm) \<Rightarrow>
          (case
             (if truthy searchTerm
              then
                (let selection =
                       filter (\<lambda>q. ilike (question q) (''%'' @ py_str searchTerm @ ''%''))
                         (order_by_question_id (questions s));
                     current_questions = paginate_questions req selection
                 in Inr (JObj [(''success'', JBool True),
                               (''questions'', JArr current_questions),
                               (''total_questions'', JInt (int (length selection)))],
                         s))
              else
                and_then
                  (Question_insert admit new_question new_answer new_difficulty new_category s)
                  (\<lambda>(q, s').
                    (let selection = order_by_question_id (questions s');
                         current_questions = paginate_questions req selection
                     in Inr (JObj [(''success'', JBool True),
                                   (''created'', JInt (question_id q)),
                                   (''questions'', JArr current_questions),
                                   (''total_questions'', JInt (int (length (questions s'))))],
                             s'))))
           of
             Inl e \<Rightarrow> (abort 422, s)
           | Inr (rv, s') \<Rightarrow> (Inr rv, s')))"


text \<open>
  \<^verbatim>\<open>POST /quizzes\<close>: the rows \<^verbatim>\<open>fresh_quizzes\<close> that the \<^verbatim>\<open>if\<close>/\<^verbatim>\<open>elif\<close> chain
  assigns, its conditions evaluated in its order. The third branch asks the column
  for \<^verbatim>\<open>not_in_\<close>, the fourth for \<^verbatim>\<open>not_in\<close>, as the source spells them.
\<close>

definition fresh_quizzes :: "json \<Rightarrow> json \<Rightarrow> store \<Rightarrow> py_exception + Question list" where
  "fresh_quizzes previous_questions quiz_category s =
     and_then (getitem quiz_category ''id'') (\<lambda>id1.
     and_then
       (if py_eq_int id1 0
        then and_then (py_len previous_questions) (\<lambda>n. Inr (n = 0))
        else Inr False) (\<lambda>all_and_none.
     if all_and_none then Inr (order_by_question_id (questions s))
     else
       and_then (py_len previous_questions) (\<lambda>n.
       if n = 0
       then
         and_then (getitem quiz_category ''id'') (\<lambda>id2.
           filter_category (py_str id2) (questions s))
       else
         and_then (getitem quiz_category ''id'') (\<lambda>id3.
         if py_eq_int id3 0
         then
           and_then (column_getattr ''not_in_'') (\<lambda>opr.
           and_then (membership opr previous_questions) (\<lambda>keep.
             Inr (filter (\<lambda>q. keep (question_id q)) (questions s))))
         else
           and_then (getitem quiz_category ''id'') (\<lambda>id4.
           and_then (column_getattr ''not_in'') (\<lambda>opr.
           and_then (membership opr previous_questions) (\<lambda>keep.
           and_then (filter_category (py_str id4) (questions s)) (\<lambda>in_category.
             Inr (filter (\<lambda>q. keep (question_id q)) in_category)))))))))"

text \<open>
  The handler, with the generator's number \<open>r\<close>: the body and its two fields, the
  rows, the draw and the answer, all inside the \<^verbatim>\<open>try\<close>.
\<close>

definition get_quizzes :: "nat \<Rightarrow> request \<Rightarrow> store \<Rightarrow> py_exception + json" where
  "get_quizzes r req s =
     try_except
       (and_then (get_json req) (\<lambda>body.
        and_then (dict_get body ''previous_questions'') (\<lambda>previous_questions.
        and_then (dict_get body ''quiz_category'') (\<lambda>quiz_category.
        and_then (fresh_quizzes previous_questions quiz_category s) (\<lambda>fresh.
          (let current_question =
                 (if fresh \<noteq> [] then format_question (random_choice r fresh) else JNull)
           in and_then (getitem quiz_category ''type'') (\<lambda>type_label.
                Inr (JObj [(''success'', JBool True),
                           (''question'', current_question),
                           (''current_category'', type_label)]))))))))
       (abort 422)"

section \<open>Error handlers and dispatch\<close>

datatype response = Response nat json | Default_Error_Page nat

definition not_found :: response where
  "not_found =
     Response 404 (JObj [(''success'', JBool False), (''error'', JInt 404),
                         (''message'', JStr ''Not found'')])"

definition method_not_allowed :: response where
  "method_not_allowed =
     Response 405 (JObj [(''success'', JBool False), (''error'', JInt 405),
                         (''message'', JStr ''Method not allowed'')])"

definition unprocessable :: response where
  "unprocessable =
     Response 422 (JObj [(''success'', JBool False), (''error'', JInt 422),
                         (''message'', JStr ''Unprocessable'')])"

definition internal_server_error :: response where
  "internal_server_error =
     Response 500 (JObj [(''success'', JBool False), (''error'', JInt 500),
                         (''message'', JStr ''Internal server error'')])"

text \<open>
  The framework around a handler: a returned value is sent with status 200, an
  \<^verbatim>\<open>abort(code)\<close> that leaves the handler goes to the handler registered for the
  code (the framework's own page when there is none), and any other exception that
  leaves the handler goes to the handler for 500.
\<close>

definition errorhandler :: "nat \<Rightarrow> response" where
  "errorhandler code =
     (if code = 404 then not_found
      else if code = 405 then method_not_allowed
      else if code = 422 then unprocessable
      else if code = 500 then internal_server_error
      else Default_Error_Page code)"

fun dispatch :: "py_exception + json \<Rightarrow> response" where
  "dispatch (Inr rv) = Response 200 rv"
| "dispatch (Inl (HTTPException code)) = errorhandler code"
| "dispatch (Inl e) = errorhandler 500"

section \<open>Sample data\<close>

text \<open>
  The store of the scenario of section 8 of the specification: the categories
  1 "Science" and 2 "Art", and twelve questions, all of them in category 1.
\<close>

definition sample_question :: "int \<Rightarrow> Question" where
  "sample_question i =
     \<lparr>question_id = i, question = Some (''Question '' @ str_int i), answer = Some ''Answer'',
      category = Some 1, difficulty = Some 1\<rparr>"

definition science_store :: store where
  "science_store =
     \<lparr>questions = map sample_question [1, 2, 3, 4, 5, 6, 7, 8, 9, 10, 11, 12],
      categories = [\<lparr>category_id = 1, category_type = ''Science''\<rparr>,
                    \<lparr>category_id = 2, category_type = ''Art''\<rparr>],
      next_id = 13\<rparr>"

text \<open>
  A request without a body, as \<^verbatim>\<open>GET\<close> and \<^verbatim>\<open>DELETE\<close> send it, and a request with
  a JSON body.
\<close>

definition plain_request :: "int option \<Rightarrow> request" where
  "plain_request p = \<lparr>page = p, is_json = False, data = None\<rparr>"

definition json_request :: "int option \<Rightarrow> json \<Rightarrow> request" where
  "json_request p body = \<lparr>page = p, is_json = True, data = Some body\<rparr>"

text \<open>A request for \<^verbatim>\<open>POST /quizzes\<close> with the two fields the handler reads.\<close>

definition quiz_request :: "json \<Rightarrow> json \<Rightarrow> request" where
  "quiz_request previous_questions quiz_category =
     json_request None (JObj [(''previous_questions'', previous_questions),
                              (''quiz_category'', quiz_category)])"

section \<open>Pagination: properties\<close>

lemma py_slice_page:
  assumes "0 \<le> start"
  shows "py_slice start (start + 10) xs = take 10 (drop (nat start) xs)"
proof (cases "start < int (length xs)")
  case True
  show ?thesis
  proof (cases "start + 10 \<le> int (length xs)")
    case inside: True
    with True assms show ?thesis
      by (simp add: py_slice_def Let_def min_def)
  next
    case False
    with True assms have "py_slice start (start + 10) xs = drop (nat start) xs"
      by (simp add: py_slice_def Let_def min_def)
    moreover from False have "length (drop (nat start) xs) \<le> 10"
      by simp
    ultimately show ?thesis by simp
  qed
next
  case False
  with assms show ?thesis
    by (simp add: py_slice_def Let_def min_def)
qed

lemma py_slice_to_zero: "start < 0 \<Longrightarrow> py_slice start 0 xs = []"
  by (simp add: py_slice_def Let_def)

text \<open>
  C4. For a page number \<open>P \<ge> 1\<close> the page of a sequence \<open>S\<close> is the slice of the
  formatted sequence from offset \<open>(P - 1) * 10\<close>, ten records long and clipped to the
  end of the sequence. When the offset is at or beyond the length the page is empty.
  The function returns a list in every case: it has no error result.
\<close>

theorem paginate_questions_slice:
  assumes "page req = Some P" and "1 \<le> P"
  shows "paginate_questions req S = take 10 (drop (nat ((P - 1) * 10)) (map format_question S))
       \<and> (int (length S) \<le> (P - 1) * 10 \<longrightarrow> paginate_questions req S = [])"
proof -
  let ?xs = "map format_question S"
  from assms(2) have "0 \<le> (P - 1) * 10" by simp
  then have "py_slice ((P - 1) * 10) ((P - 1) * 10 + 10) ?xs = take 10 (drop (nat ((P - 1) * 10)) ?xs)"
    by (rule py_slice_page)
  moreover have "paginate_questions req S = py_slice ((P - 1) * 10) ((P - 1) * 10 + 10) ?xs"
    unfolding paginate_questions_def QUESTIONS_PER_PAGE_def Let_def assms(1) by simp
  ultimately have "paginate_questions req S = take 10 (drop (nat ((P - 1) * 10)) ?xs)"
    by simp
  then show ?thesis by simp
qed

theorem paginate_questions_slice_witness:
  "paginate_questions (plain_request (Some 2)) (questions science_store)
     = [format_question (sample_question 11), format_question (sample_question 12)]
   \<and> paginate_questions (plain_request (Some 3)) (questions science_store) = []"
  using paginate_questions_slice [of "plain_request (Some 2)" 2 "questions science_store"]
    paginate_questions_slice [of "plain_request (Some 3)" 3 "questions science_store"]
  by (simp add: science_store_def plain_request_def)

text \<open>
  C9. With page number 0 the offsets are \<open>-10\<close> and \<open>0\<close>, the slice \<^verbatim>\<open>[-10:0]\<close> of any
  list is empty, so the page is empty whatever the sequence, and the listing of all
  questions, which rejects an empty page, answers "not found".
\<close>

theorem paginate_questions_page_zero:
  "py_slice (- 10) 0 xs = []
   \<and> paginate_questions (req\<lparr>page := Some 0\<rparr>) S = []
   \<and> dispatch (get_questions (req\<lparr>page := Some 0\<rparr>) s) = not_found"
proof -
  have "paginate_questions (req\<lparr>page := Some 0\<rparr>) S = []" for S
    by (simp add: paginate_questions_def QUESTIONS_PER_PAGE_def Let_def py_slice_to_zero)
  then show ?thesis
    by (simp add: get_questions_def Let_def abort_def errorhandler_def py_slice_to_zero)
qed

section \<open>Coercion to an integer column: properties\<close>

lemma digit_value_digit_char:
  assumes "d < 10"
  shows "digit_value (digit_char d) = Some d"
proof -
  from assms have "d = 0 \<or> d = 1 \<or> d = 2 \<or> d = 3 \<or> d = 4 \<or> d = 5 \<or> d = 6 \<or> d = 7
      \<or> d = 8 \<or> d = 9"
    by arith
  then show ?thesis
    by (elim disjE) (simp_all add: digit_value_def digit_char_def)
qed

lemma digits_value_append:
  "digits_value acc (xs @ ys) =
     (case digits_value acc xs of None \<Rightarrow> None | Some a \<Rightarrow> digits_value a ys)"
  by (induction xs arbitrary: acc) (auto split: option.splits)

lemma digits_value_str_nat: "digits_value 0 (str_nat n) = Some n"
proof (induction n rule: str_nat.induct)
  case (1 n)
  show ?case
  proof (cases "n < 10")
    case True
    then show ?thesis
      by (subst str_nat.simps) (simp add: digit_value_digit_char)
  next
    case False
    with "1" have "digits_value 0 (str_nat (n div 10)) = Some (n div 10)"
      by simp
    moreover have "digit_value (digit_char (n mod 10)) = Some (n mod 10)"
      by (rule digit_value_digit_char) simp
    ultimately show ?thesis
      using False by (subst str_nat.simps) (simp add: digits_value_append)
  qed
qed

lemma str_nat_first:
  obtains c cs where "str_nat n = c # cs" and "c \<noteq> CHR ''-''"
proof (cases "str_nat n")
  case Nil
  then show ?thesis
    by (subst (asm) str_nat.simps) (simp split: if_splits)
next
  case (Cons c cs)
  have "digit_value c \<noteq> None"
    using digits_value_str_nat [of n] unfolding Cons by (auto split: option.splits)
  then have "c \<noteq> CHR ''-''"
    by (auto simp: digit_value_def)
  with Cons show ?thesis by (rule that)
qed

text \<open>The decimal text of an integer is coerced back to the integer.\<close>

lemma int_of_text_str_int: "int_of_text (str_int i) = Some i"
proof (cases "i < 0")
  case True
  obtain c cs where "str_nat (nat (- i)) = c # cs"
    by (rule str_nat_first)
  then show ?thesis
    using True digits_value_str_nat [of "nat (- i)"]
    by (simp add: int_of_text_def str_int_def)
next
  case False
  obtain c cs where "str_nat (nat i) = c # cs" and "c \<noteq> CHR ''-''"
    by (rule str_nat_first)
  then show ?thesis
    using False digits_value_str_nat [of "nat i"]
    by (simp add: int_of_text_def str_int_def)
qed

lemma sql_eq_Some: "sql_eq column (Some i) \<longleftrightarrow> column = Some i"
  by (auto simp: sql_eq_def split: option.splits)

lemma filter_category_str_int:
  "filter_category (str_int i) rows = Inr (filter (\<lambda>q. category q = Some i) rows)"
  by (simp add: filter_category_def int_of_text_str_int sql_eq_Some)

lemma filter_category_subset:
  "filter_category key rows = Inr selection \<Longrightarrow> set selection \<subseteq> set rows"
  by (auto simp: filter_category_def split: option.splits)

lemma integer_params_member:
  "integer_params vs = Inr ps \<Longrightarrow> JInt i \<in> set vs \<Longrightarrow> Some i \<in> set ps"
proof (induction vs arbitrary: ps)
  case Nil
  then show ?case by simp
next
  case (Cons v vs)
  from Cons.prems(1) obtain p ps' where
    p: "integer_param v = Inr p" and ps': "integer_params vs = Inr ps'" and ps: "ps = p # ps'"
    by (cases "integer_param v"; cases "integer_params vs") auto
  show ?case
  proof (cases "v = JInt i")
    case True
    with p ps show ?thesis by simp
  next
    case False
    with Cons.prems(2) have "JInt i \<in> set vs" by simp
    with ps' have "Some i \<in> set ps'" by (rule Cons.IH)
    with ps show ?thesis by simp
  qed
qed

lemma integer_params_map_JInt: "integer_params (map JInt ids) = Inr (map Some ids)"
  by (induction ids) simp_all

section \<open>Quiz draw: properties\<close>

lemma and_then_Inr_iff: "and_then m f = Inr y \<longleftrightarrow> (\<exists>x. m = Inr x \<and> f x = Inr y)"
  by (cases m) auto

lemma try_except_abort_Inr_iff: "try_except m (abort c) = Inr v \<longleftrightarrow> m = Inr v"
  by (cases m) (auto simp: abort_def)

lemma try_except_abort_cases:
  "try_except m (abort c) = abort c \<or> (\<exists>v. try_except m (abort c) = Inr v)"
  by (cases m) auto

lemma column_getattr_not_in_: "column_getattr ''not_in_'' = Inl AttributeError"
  by (simp add: column_getattr_def)

lemma column_getattr_not_in: "column_getattr ''not_in'' = Inr Not_In_Op"
  by (simp add: column_getattr_def)

lemma membership_not_in_excludes:
  assumes "membership Not_In_Op (JArr vs) = Inr keep" and "keep i"
  shows "JInt i \<notin> set vs"
proof
  assume mem: "JInt i \<in> set vs"
  from assms(1) obtain ps where ps: "integer_params vs = Inr ps"
    and keep: "keep = (\<lambda>i. None \<notin> set ps \<and> Some i \<notin> set ps)"
    by (auto simp: and_then_Inr_iff)
  from ps mem have "Some i \<in> set ps" by (rule integer_params_member)
  with keep assms(2) show False by simp
qed

lemma membership_not_in_ids:
  "membership Not_In_Op (JArr (map JInt ids)) = Inr (\<lambda>i. i \<notin> set ids)"
  by (auto simp: integer_params_map_JInt)

lemma filter_category_mem:
  "filter_category key rows = Inr selection \<Longrightarrow> q \<in> set selection \<Longrightarrow> q \<in> set rows"
  using filter_category_subset by blast

lemma random_choice_mem: "xs \<noteq> [] \<Longrightarrow> random_choice r xs \<in> set xs"
  by (simp add: random_choice_def)

lemma format_question_id: "getitem (format_question q) ''id'' = Inr (JInt (question_id q))"
  by (simp add: format_question_def)

lemma format_question_category:
  "getitem (format_question q) ''category'' = Inr (int_json (category q))"
  by (simp add: format_question_def)

lemma get_json_quiz_request:
  "get_json (quiz_request previous_questions quiz_category)
     = Inr (JObj [(''previous_questions'', previous_questions),
                  (''quiz_category'', quiz_category)])"
  by (simp add: get_json_def quiz_request_def json_request_def)

lemma fresh_quizzes_subset:
  assumes "fresh_quizzes previous_questions quiz_category s = Inr fresh"
  shows "set fresh \<subseteq> set (questions s)"
  using assms
  by (auto simp: fresh_quizzes_def and_then_Inr_iff order_by_question_id_def
        column_getattr_not_in_ column_getattr_not_in split: if_splits
        dest: filter_category_mem)

lemma fresh_quizzes_not_previous:
  assumes "fresh_quizzes (JArr previous) quiz_category s = Inr fresh" and "q \<in> set fresh"
  shows "JInt (question_id q) \<notin> set previous"
  using assms
  by (auto simp: fresh_quizzes_def and_then_Inr_iff order_by_question_id_def
        column_getattr_not_in_ column_getattr_not_in split: if_splits
        dest: integer_params_member)

lemma get_quizzes_Inr:
  assumes "get_quizzes r req s = Inr rv"
  obtains body previous_questions quiz_category fresh T where
    "get_json req = Inr body"
    "dict_get body ''previous_questions'' = Inr previous_questions"
    "dict_get body ''quiz_category'' = Inr quiz_category"
    "fresh_quizzes previous_questions quiz_category s = Inr fresh"
    "getitem quiz_category ''type'' = Inr T"
    "rv = JObj [(''success'', JBool True),
                (''question'', if fresh \<noteq> [] then format_question (random_choice r fresh) else JNull),
                (''current_category'', T)]"
  using assms
  unfolding get_quizzes_def Let_def try_except_abort_Inr_iff and_then_Inr_iff
  by blast

text \<open>
  C2. When a quiz draw answers with a question, that question is a row of the store
  and its identifier is not a member of the list \<^verbatim>\<open>previous_questions\<close> of the
  request. The statement does not depend on the category selector: it covers the
  "all categories" selector 0 and a specific category alike.
\<close>

theorem quiz_question_not_previous:
  assumes "get_quizzes r req s = Inr rv"
      and "getitem rv ''question'' = Inr (JObj fs)"
      and "get_json req = Inr body"
      and "dict_get body ''previous_questions'' = Inr (JArr previous)"
  shows "\<exists>q\<in>set (questions s).
           JObj fs = format_question q
         \<and> getitem (JObj fs) ''id'' = Inr (JInt (question_id q))
         \<and> JInt (question_id q) \<notin> set previous"
proof -
  from assms(1) obtain body' previous_questions quiz_category fresh T where
    b: "get_json req = Inr body'" and
    p: "dict_get body' ''previous_questions'' = Inr previous_questions" and
    f: "fresh_quizzes previous_questions quiz_category s = Inr fresh" and
    rv: "rv = JObj [(''success'', JBool True),
                (''question'', if fresh \<noteq> [] then format_question (random_choice r fresh) else JNull),
                (''current_category'', T)]"
    by (rule get_quizzes_Inr)
  from b assms(3) have "body' = body" by simp
  with p assms(4) have prev: "previous_questions = JArr previous" by simp
  from rv assms(2) have ne: "fresh \<noteq> []"
    by (auto split: if_splits)
  let ?q = "random_choice r fresh"
  from ne have mem: "?q \<in> set fresh" by (rule random_choice_mem)
  with f have "?q \<in> set (questions s)"
    using fresh_quizzes_subset by blast
  moreover from rv assms(2) ne have "JObj fs = format_question ?q" by simp
  moreover have "JInt (question_id ?q) \<notin> set previous"
    using f mem unfolding prev by (rule fresh_quizzes_not_previous)
  ultimately show ?thesis
    using format_question_id [of ?q] by auto
qed

theorem quiz_question_not_previous_witness:
  "get_quizzes 3
     (quiz_request (JArr [JInt 1, JInt 5]) (JObj [(''id'', JInt 1), (''type'', JStr ''Science'')]))
     science_store
     = Inr (JObj [(''success'', JBool True),
                  (''question'',
                   JObj [(''answer'', JStr ''Answer''), (''category'', JInt 1),
                         (''difficulty'', JInt 1), (''id'', JInt 6),
                         (''question'', JStr ''Question 6'')]),
                  (''current_category'', JStr ''Science'')])
   \<and> (\<exists>q\<in>set (questions science_store).
      JObj [(''answer'', JStr ''Answer''), (''category'', JInt 1), (''difficulty'', JInt 1),
            (''id'', JInt 6), (''question'', JStr ''Question 6'')] = format_question q
    \<and> getitem (JObj [(''answer'', JStr ''Answer''), (''category'', JInt 1), (''difficulty'', JInt 1),
            (''id'', JInt 6), (''question'', JStr ''Question 6'')]) ''id'' = Inr (JInt (question_id q))
    \<and> JInt (question_id q) \<notin> set [JInt 1, JInt 5])"
proof -
  let ?body = "JObj [(''previous_questions'', JArr [JInt 1, JInt 5]),
                     (''quiz_category'', JObj [(''id'', JInt 1), (''type'', JStr ''Science'')])]"
  let ?req = "quiz_request (JArr [JInt 1, JInt 5]) (JObj [(''id'', JInt 1), (''type'', JStr ''Science'')])"
  let ?fs = "[(''answer'', JStr ''Answer''), (''category'', JInt 1), (''difficulty'', JInt 1),
            (''id'', JInt 6), (''question'', JStr ''Question 6'')]"
  let ?rv = "JObj [(''success'', JBool True), (''question'', JObj ?fs), (''current_category'', JStr ''Science'')]"
  have run: "get_quizzes 3 ?req science_store = Inr ?rv"
    by code_simp
  have field: "getitem ?rv ''question'' = Inr (JObj ?fs)" by simp
  have body: "get_json ?req = Inr ?body"
    by (rule get_json_quiz_request)
  have previous: "dict_get ?body ''previous_questions'' = Inr (JArr [JInt 1, JInt 5])"
    by simp
  from run quiz_question_not_previous [OF run field body previous] show ?thesis
    by (rule conjI)
qed

text \<open>
  C1. A request with the selector 0 and a non-empty list of previous questions takes
  the third branch, where the lookup of \<^verbatim>\<open>not_in_\<close> on the column raises
  \<^verbatim>\<open>AttributeError\<close>; the \<^verbatim>\<open>except\<close> clause turns it into "unprocessable". No such
  request is answered with a question, whatever the store holds.
\<close>

theorem all_categories_with_previous_is_unprocessable:
  "fresh_quizzes (JArr (p # ps)) (JObj ((''id'', JInt 0) # rest)) s = Inl AttributeError
   \<and> get_quizzes r (quiz_request (JArr (p # ps)) (JObj ((''id'', JInt 0) # rest))) s = abort 422
   \<and> dispatch (get_quizzes r (quiz_request (JArr (p # ps)) (JObj ((''id'', JInt 0) # rest))) s)
       = unprocessable"
  by (simp add: get_quizzes_def fresh_quizzes_def get_json_quiz_request column_getattr_def
      abort_def errorhandler_def)

text \<open>
  C3. After all twelve questions of the sample store have been asked under the
  selector 0, no question is left to draw, and the next draw is answered with
  "unprocessable": it goes through the same third branch.
\<close>

theorem exhausted_all_categories_is_unprocessable:
  "filter (\<lambda>q. JInt (question_id q) \<notin> set (map JInt [1, 2, 3, 4, 5, 6, 7, 8, 9, 10, 11, 12]))
     (questions science_store) = []
   \<and> dispatch (get_quizzes r
        (quiz_request (JArr (map JInt [1, 2, 3, 4, 5, 6, 7, 8, 9, 10, 11, 12]))
           (JObj [(''id'', JInt 0), (''type'', JStr ''click'')]))
        science_store) = unprocessable"
  by (simp add: get_quizzes_def fresh_quizzes_def get_json_quiz_request column_getattr_def
      abort_def errorhandler_def science_store_def sample_question_def)

text \<open>
  When the chain yields no row and the selector carries a label, the answer is a
  success with a null question: the "no more questions" signal.
\<close>

lemma get_quizzes_no_more_questions:
  assumes "get_json req = Inr body"
      and "dict_get body ''previous_questions'' = Inr previous_questions"
      and "dict_get body ''quiz_category'' = Inr quiz_category"
      and "fresh_quizzes previous_questions quiz_category s = Inr []"
      and "getitem quiz_category ''type'' = Inr T"
  shows "get_quizzes r req s
     = Inr (JObj [(''success'', JBool True), (''question'', JNull), (''current_category'', T)])"
  using assms by (simp add: get_quizzes_def)

text \<open>A selector without a label is never answered with a success.\<close>

lemma get_quizzes_without_type:
  assumes "map_of cat ''type'' = None"
  shows "get_quizzes r (quiz_request previous (JObj cat)) s = abort 422"
proof -
  let ?req = "quiz_request previous (JObj cat)"
  have "get_quizzes r ?req s = abort 422 \<or> (\<exists>rv. get_quizzes r ?req s = Inr rv)"
    unfolding get_quizzes_def by (rule try_except_abort_cases)
  moreover have False if "get_quizzes r ?req s = Inr rv" for rv
  proof -
    from that obtain body quiz_category T where
      "get_json ?req = Inr body" and "dict_get body ''quiz_category'' = Inr quiz_category"
      and "getitem quiz_category ''type'' = Inr T"
      by (rule get_quizzes_Inr)
    with assms show False
      by (auto simp: get_json_quiz_request)
  qed
  ultimately show ?thesis by blast
qed

lemma filter_all_previous:
  assumes "\<forall>q\<in>set qs. question_id q \<in> set ids"
  shows "filter (\<lambda>q. question_id q \<notin> set ids) (filter (\<lambda>q. category q = Some c) qs) = []"
  using assms by (induction qs) auto

text \<open>
  C8, as the handler has it. In a store whose questions are all in category 1, a
  draw with \<^verbatim>\<open>quiz_category = {id: 1, type: T}\<close> and no previous questions returns a
  question with category 1; once the identifiers of all questions have been
  accumulated into \<^verbatim>\<open>previous_questions\<close>, the draw succeeds with a null question, and
  \<^verbatim>\<open>current_category\<close> is \<open>T\<close>, the label the request carries. A \<^verbatim>\<open>quiz_category\<close>
  without a \<^verbatim>\<open>type\<close> is answered with "unprocessable", whatever else the request and
  the store hold.
\<close>

theorem quiz_in_category_one:
  assumes "questions s \<noteq> []" and "\<forall>q\<in>set (questions s). category q = Some 1"
  shows "(\<exists>q\<in>set (questions s).
            get_quizzes r (quiz_request (JArr []) (JObj [(''id'', JInt 1), (''type'', T)])) s
              = Inr (JObj [(''success'', JBool True), (''question'', format_question q),
                           (''current_category'', T)])
          \<and> getitem (format_question q) ''category'' = Inr (JInt 1))
       \<and> ((\<forall>q\<in>set (questions s). question_id q \<in> set ids) \<longrightarrow>
            get_quizzes r (quiz_request (JArr (map JInt ids)) (JObj [(''id'', JInt 1), (''type'', T)])) s
              = Inr (JObj [(''success'', JBool True), (''question'', JNull),
                           (''current_category'', T)]))
       \<and> (map_of cat ''type'' = None \<longrightarrow>
            dispatch (get_quizzes r (quiz_request previous (JObj cat)) s) = unprocessable)"
proof (intro conjI impI)
  from assms(2) have all: "filter (\<lambda>q. category q = Some 1) (questions s) = questions s"
    by simp
  let ?q = "random_choice r (questions s)"
  from assms(1) have mem: "?q \<in> set (questions s)" by (rule random_choice_mem)
  with assms(2) have "category ?q = Some 1" by blast
  then have "getitem (format_question ?q) ''category'' = Inr (JInt 1)"
    by (simp add: format_question_category int_json_def)
  moreover have "get_quizzes r (quiz_request (JArr []) (JObj [(''id'', JInt 1), (''type'', T)])) s
      = Inr (JObj [(''success'', JBool True), (''question'', format_question ?q),
                   (''current_category'', T)])"
    using assms(1) all
    by (simp add: get_quizzes_def fresh_quizzes_def get_json_quiz_request
        filter_category_str_int)
  ultimately show "\<exists>q\<in>set (questions s).
            get_quizzes r (quiz_request (JArr []) (JObj [(''id'', JInt 1), (''type'', T)])) s
              = Inr (JObj [(''success'', JBool True), (''question'', format_question q),
                           (''current_category'', T)])
          \<and> getitem (format_question q) ''category'' = Inr (JInt 1)"
    using mem by blast
next
  assume prev: "\<forall>q\<in>set (questions s). question_id q \<in> set ids"
  with assms(1) have ne: "ids \<noteq> []" by (cases "questions s") auto
  from prev have "filter (\<lambda>q. question_id q \<notin> set ids)
      (filter (\<lambda>q. category q = Some 1) (questions s)) = []"
    by (rule filter_all_previous)
  with ne show "get_quizzes r (quiz_request (JArr (map JInt ids)) (JObj [(''id'', JInt 1), (''type'', T)])) s
              = Inr (JObj [(''success'', JBool True), (''question'', JNull),
                           (''current_category'', T)])"
    by (simp add: get_quizzes_def fresh_quizzes_def get_json_quiz_request
        filter_category_str_int column_getattr_not_in membership_not_in_ids
        del: membership.simps)
next
  assume "map_of cat ''type'' = None"
  then have "get_quizzes r (quiz_request previous (JObj cat)) s = abort 422"
    by (rule get_quizzes_without_type)
  then show "dispatch (get_quizzes r (quiz_request previous (JObj cat)) s) = unprocessable"
    by (simp add: abort_def errorhandler_def)
qed

theorem quiz_in_category_one_witness:
  "(\<exists>q\<in>set (questions science_store).
      get_quizzes 3 (quiz_request (JArr []) (JObj [(''id'', JInt 1), (''type'', JStr ''Science'')]))
        science_store
        = Inr (JObj [(''success'', JBool True), (''question'', format_question q),
                     (''current_category'', JStr ''Science'')])
      \<and> getitem (format_question q) ''category'' = Inr (JInt 1))
   \<and> get_quizzes 3
        (quiz_request (JArr (map JInt [1, 2, 3, 4, 5, 6, 7, 8, 9, 10, 11, 12]))
           (JObj [(''id'', JInt 1), (''type'', JStr ''Science'')]))
        science_store
       = Inr (JObj [(''success'', JBool True), (''question'', JNull),
                    (''current_category'', JStr ''Science'')])
   \<and> dispatch (get_quizzes 3
        (quiz_request (JArr [JInt 4]) (JObj [(''id'', JInt 1)])) science_store)
       = unprocessable"
proof -
  have ne: "questions science_store \<noteq> []"
    by (simp add: science_store_def)
  have cat: "\<forall>q\<in>set (questions science_store). category q = Some 1"
    by (simp add: science_store_def sample_question_def)
  have ids: "\<forall>q\<in>set (questions science_store).
      question_id q \<in> set [1, 2, 3, 4, 5, 6, 7, 8, 9, 10, 11, 12]"
    by (simp add: science_store_def sample_question_def)
  have no_type: "map_of [(''id'', JInt 1)] ''type'' = None"
    by simp
  show ?thesis
    using quiz_in_category_one [OF ne cat, of 3 "JStr ''Science''"
        "[1, 2, 3, 4, 5, 6, 7, 8, 9, 10, 11, 12]" "[(''id'', JInt 1)]" "JArr [JInt 4]"]
      ids no_type
    by blast
qed

text \<open>
  The request \<^verbatim>\<open>quiz_category = {id: 1}\<close> carries no label and is answered with
  "unprocessable"; a request that carries the label "Art" gets "Art" back although
  the store labels category 1 "Science".
\<close>

theorem quiz_category_label_counterexample:
  "dispatch (get_quizzes 3 (quiz_request (JArr []) (JObj [(''id'', JInt 1)])) science_store)
     = unprocessable
   \<and> dispatch (get_quizzes 3
        (quiz_request (JArr (map JInt [1, 2, 3, 4, 5, 6, 7, 8, 9, 10, 11, 12]))
           (JObj [(''id'', JInt 1), (''type'', JStr ''Art'')]))
        science_store)
       = Response 200 (JObj [(''success'', JBool True), (''question'', JNull),
                             (''current_category'', JStr ''Art'')])"
  by code_simp

section \<open>Deletion: properties\<close>

text \<open>
  C6. A deletion that names an identifier no question has reaches \<^verbatim>\<open>abort(404)\<close>
  inside the \<^verbatim>\<open>try\<close>; the \<^verbatim>\<open>except BaseException\<close> clause catches it and the answer
  is "unprocessable", not "not found". The store is unchanged.
\<close>

theorem delete_missing_question_is_unprocessable:
  assumes "\<forall>q\<in>set (questions s). question_id q \<noteq> qid"
  shows "delete_question commits req qid s = (abort 422, s)
       \<and> dispatch (fst (delete_question commits req qid s)) = unprocessable
       \<and> unprocessable \<noteq> not_found"
proof -
  from assms have "filter (\<lambda>q. question_id q = qid) (questions s) = []"
    by (simp add: filter_empty_conv)
  then have "delete_question commits req qid s = (abort 422, s)"
    by (simp add: delete_question_def abort_def)
  then show ?thesis
    by (simp add: abort_def errorhandler_def unprocessable_def not_found_def)
qed

theorem delete_missing_question_is_unprocessable_witness:
  "delete_question True (plain_request None) 99 science_store
     = (abort 422, science_store)
   \<and> dispatch (fst (delete_question True (plain_request None) 99 science_store))
       = unprocessable
   \<and> unprocessable \<noteq> not_found"
proof -
  have "\<forall>q\<in>set (questions science_store). question_id q \<noteq> 99"
    by (simp add: science_store_def sample_question_def)
  then show ?thesis
    by (rule delete_missing_question_is_unprocessable)
qed

text \<open>
  The other two cases of a deletion: an existing question whose transaction goes
  through, and one whose transaction fails.
\<close>

lemma delete_existing_question:
  assumes "filter (\<lambda>q. question_id q = qid) (questions s) = [q]"
  shows "delete_question True req qid s =
     (Inr (JObj [(''success'', JBool True),
                 (''deleted'', JInt qid),
                 (''questions'', JArr (paginate_questions req (order_by_question_id
                     (filter (\<lambda>r. question_id r \<noteq> qid) (questions s))))),
                 (''total_questions'', JInt (int (length
                     (filter (\<lambda>r. question_id r \<noteq> qid) (questions s)))))]),
      s\<lparr>questions := filter (\<lambda>r. question_id r \<noteq> qid) (questions s)\<rparr>)"
proof -
  from assms have "q \<in> set (filter (\<lambda>q. question_id q = qid) (questions s))" by simp
  then have "question_id q = qid" by simp
  with assms show ?thesis
    by (simp add: delete_question_def Question_delete_def Let_def)
qed

lemma delete_failed_transaction:
  assumes "filter (\<lambda>q. question_id q = qid) (questions s) = [q]"
  shows "delete_question False req qid s = (abort 422, s)"
  using assms by (simp add: delete_question_def Question_delete_def)

section \<open>Listings and empty pages\<close>




section \<open>Creation and search: properties\<close>




text \<open>
  C5, as the handler has it. A search term that is present but empty is false for
  \<^verbatim>\<open>if searchTerm:\<close>, so the handler does not search: it takes the creation branch
  with the other four fields of the body, as it does when the term is absent. When
  the store admits the row, the question is inserted under the next identifier and
  the answer reports it with the requested page of the new listing and the new
  total; when the store refuses it, the answer is "unprocessable" and the store is
  unchanged.
\<close>

theorem empty_search_term_creates:
  assumes "get_json req = Inr (JObj kvs)" and "map_of kvs ''searchTerm'' = Some (JStr [])"
  shows "create_and_search_question admit req s =
     (case Question_insert admit
             (case map_of kvs ''question'' of None \<Rightarrow> JNull | Some v \<Rightarrow> v)
             (case map_of kvs ''answer'' of None \<Rightarrow> JNull | Some v \<Rightarrow> v)
             (case map_of kvs ''difficulty'' of None \<Rightarrow> JNull | Some v \<Rightarrow> v)
             (case map_of kvs ''category'' of None \<Rightarrow> JNull | Some v \<Rightarrow> v) s of
        Inl e \<Rightarrow> (abort 422, s)
      | Inr (q, s') \<Rightarrow>
          (Inr (JObj [(''success'', JBool True),
                      (''created'', JInt (next_id s)),
                      (''questions'',
                       JArr (paginate_questions req (order_by_question_id (questions s')))),
                      (''total_questions'', JInt (int (length (questions s)) + 1))]),
           s'))"
  using assms
  by (auto simp: create_and_search_question_def Question_insert_def Let_def
        split: option.splits sum.splits)

theorem empty_search_term_creates_witness:
  "create_and_search_question nullable_columns
     (json_request (Some 2) (JObj [(''searchTerm'', JStr [])])) science_store
   = (Inr (JObj [(''success'', JBool True),
                 (''created'', JInt 13),
                 (''questions'',
                  JArr [format_question (sample_question 11),
                        format_question (sample_question 12),
                        format_question \<lparr>question_id = 13, question = None, answer = None,
                                          category = None, difficulty = None\<rparr>]),
                 (''total_questions'', JInt 13)]),
      science_store
        \<lparr>questions := questions science_store @
           [\<lparr>question_id = 13, question = None, answer = None, category = None,
             difficulty = None\<rparr>],
         next_id := 14\<rparr>)"
proof -
  let ?req = "json_request (Some 2) (JObj [(''searchTerm'', JStr [])])"
  let ?new = "\<lparr>question_id = 13, question = None, answer = None, category = None,
             difficulty = None\<rparr>"
  have body: "get_json ?req = Inr (JObj [(''searchTerm'', JStr [])])"
    by (simp add: get_json_def json_request_def)
  have needle: "map_of [(''searchTerm'', JStr [])] ''searchTerm'' = Some (JStr [])" by simp
  have ins: "Question_insert nullable_columns JNull JNull JNull JNull science_store
      = Inr (?new, science_store\<lparr>questions := questions science_store @ [?new], next_id := 14\<rparr>)"
    by (simp add: Question_insert_def nullable_columns_def integer_column_def
        science_store_def Let_def)
  have pg: "paginate_questions ?req
      (order_by_question_id (questions science_store @ [?new]))
      = [format_question (sample_question 11), format_question (sample_question 12),
         format_question ?new]"
    by code_simp
  have len: "length (questions science_store) = 12" and nid: "next_id science_store = 13"
    by (simp_all add: science_store_def)
  show ?thesis
    using empty_search_term_creates [OF body needle, of nullable_columns science_store]
    by (simp add: ins pg len nid)
qed

text \<open>
  On the sample store the body \<^verbatim>\<open>{"searchTerm": ""}\<close> is not answered with the twelve
  questions as matches: a thirteenth question, all of its fields null, is created.
\<close>

theorem empty_search_term_counterexample:
  "fst (create_and_search_question nullable_columns
     (json_request (Some 2) (JObj [(''searchTerm'', JStr [])])) science_store)
   \<noteq> Inr (JObj [(''success'', JBool True),
                 (''questions'',
                  JArr [format_question (sample_question 11),
                        format_question (sample_question 12)]),
                 (''total_questions'', JInt 12)])
   \<and> fst (create_and_search_question nullable_columns
     (json_request (Some 2) (JObj [(''searchTerm'', JStr [])])) science_store)
   = Inr (JObj [(''success'', JBool True),
                (''created'', JInt 13),
                (''questions'',
                 JArr [format_question (sample_question 11),
                       format_question (sample_question 12),
                       format_question \<lparr>question_id = 13, question = None, answer = None,
                                         category = None, difficulty = None\<rparr>]),
                (''total_questions'', JInt 13)])
   \<and> length (questions (snd (create_and_search_question nullable_columns
     (json_request (Some 2) (JObj [(''searchTerm'', JStr [])])) science_store))) = 13"
  by code_simp

end
